theory Spec2Isabelle
  imports Main "HOL-Library.Multiset"
begin

section \<open>Data model\<close>

text \<open>
  The component is the React panel \<^verbatim>\<open>BoardApprovalsPanel\<close>. Two versions of it are
  embedded: the one with externally injectable state (humanised titles, payload
  summaries, separate pending and resolved lists) and the simpler one (underscores
  stripped from the title, one concatenated list). Names of the simpler version carry
  the suffix \<open>0\<close> where the two differ.

  JavaScript strings are modelled as \<^typ>\<open>string\<close>; a character stands for one code unit
  below 256. JavaScript numbers that only travel through the component (JSON numbers,
  \<^verbatim>\<open>confidence\<close>) are a type parameter \<open>'n\<close>; \<^verbatim>\<open>String(n)\<close> of the runtime is the
  parameter \<open>numStr\<close>.
\<close>

datatype 'n json =
    JNull
  | JBool bool
  | JNum 'n
  | JStr string
  | JArr "'n json list"
  | JObj "(string \<times> 'n json) list"

text \<open>\<^verbatim>\<open>type Approval\<close>. An optional field that is \<^verbatim>\<open>null\<close> or missing is \<open>None\<close>.\<close>

record 'n approval =
  id' :: string
  action_type :: string
  payload :: "(string \<rightharpoonup> 'n json) option"
  confidence :: 'n
  rubric_scores :: "(string \<rightharpoonup> 'n) option"
  status :: string
  created_at :: string
  resolved_at :: "string option"

section \<open>Presenter: partition and sort\<close>

text \<open>
  \<^verbatim>\<open>new Date(s).getTime()\<close> is the runtime's: the parameter \<open>getTime\<close> gives the time
  value in milliseconds, \<open>None\<close> standing for \<^verbatim>\<open>NaN\<close> (the string does not parse).
  The comparator is \<^verbatim>\<open>(a, b) => bTime - aTime\<close>; a difference with a \<^verbatim>\<open>NaN\<close> operand
  is \<^verbatim>\<open>NaN\<close>. Time values are whole numbers of milliseconds, so the difference
  of two of them has the sign of their difference as integers, which is all the sort
  reads.
\<close>

definition compareByTime ::
  "(string \<Rightarrow> int option) \<Rightarrow> 'n approval \<Rightarrow> 'n approval \<Rightarrow> int option" where
  "compareByTime getTime a b =
     (let aTime = getTime (created_at a);
          bTime = getTime (created_at b)
      in case bTime of
           None \<Rightarrow> None
         | Some bt \<Rightarrow> (case aTime of None \<Rightarrow> None | Some at \<Rightarrow> Some (bt - at)))"

text \<open>
  \<^verbatim>\<open>Array.prototype.sort\<close> with a comparator. ECMAScript's \<^verbatim>\<open>SortCompare\<close> reads a
  \<^verbatim>\<open>NaN\<close> result of the comparator as \<open>+0\<close>. The sort is stable, and the order it
  gives is fixed by the language only for a consistent comparator, which this one is as
  long as every timestamp of the list parses. It is modelled as a stable insertion sort
  (an element moves behind a later one only when the comparator puts it strictly after),
  which gives that order. For a list with a timestamp that does not parse the comparator
  is not consistent and the implementation of the sort decides the order; there the
  model stands for the sort only in that its output is a permutation of the input.
\<close>

definition sortCompare :: "('a \<Rightarrow> 'a \<Rightarrow> int option) \<Rightarrow> 'a \<Rightarrow> 'a \<Rightarrow> int" where
  "sortCompare comparefn x y = (case comparefn x y of None \<Rightarrow> 0 | Some v \<Rightarrow> v)"

fun sortInsert :: "('a \<Rightarrow> 'a \<Rightarrow> int option) \<Rightarrow> 'a \<Rightarrow> 'a list \<Rightarrow> 'a list" where
  "sortInsert comparefn x [] = [x]"
| "sortInsert comparefn x (y # ys) =
     (if 0 < sortCompare comparefn x y then y # sortInsert comparefn x ys
      else x # y # ys)"

fun arraySort :: "('a \<Rightarrow> 'a \<Rightarrow> int option) \<Rightarrow> 'a list \<Rightarrow> 'a list" where
  "arraySort comparefn [] = []"
| "arraySort comparefn (x # xs) = sortInsert comparefn x (arraySort comparefn xs)"

definition sortByTime :: "(string \<Rightarrow> int option) \<Rightarrow> 'n approval list \<Rightarrow> 'n approval list" where
  "sortByTime getTime items = arraySort (compareByTime getTime) items"

record 'n sorted =
  pending :: "'n approval list"
  resolved :: "'n approval list"

definition sortedApprovals :: "(string \<Rightarrow> int option) \<Rightarrow> 'n approval list \<Rightarrow> 'n sorted" where
  "sortedApprovals getTime approvals =
     \<lparr> pending = sortByTime getTime (filter (\<lambda>item. status item = ''pending'') approvals),
       resolved = sortByTime getTime (filter (\<lambda>item. status item \<noteq> ''pending'') approvals) \<rparr>"

text \<open>The simpler version returns one list: the sorted pending records, then the others.\<close>

definition sortedApprovals0 :: "(string \<Rightarrow> int option) \<Rightarrow> 'n approval list \<Rightarrow> 'n approval list" where
  "sortedApprovals0 getTime approvals =
     (let pending = filter (\<lambda>item. status item = ''pending'') approvals;
          resolved = filter (\<lambda>item. status item \<noteq> ''pending'') approvals
      in sortByTime getTime pending @ sortByTime getTime resolved)"

section \<open>Presenter: titles, badges and payload summaries\<close>

text \<open>
  \<^verbatim>\<open>String.prototype.split\<close> on a one-character separator: the pieces between the
  separators, empty pieces kept, so the empty string gives one empty piece.
\<close>

fun split :: "char \<Rightarrow> string \<Rightarrow> string list" where
  "split sep [] = [[]]"
| "split sep (c # cs) =
     (if c = sep then [] # split sep cs
      else (case split sep cs of
              [] \<Rightarrow> [[c]]
            | part # parts \<Rightarrow> (c # part) # parts))"

fun join :: "string \<Rightarrow> string list \<Rightarrow> string" where
  "join sep [] = []"
| "join sep [part] = part"
| "join sep (part # parts) = part @ sep @ join sep parts"

text \<open>\<^verbatim>\<open>.replace(/_/g, " ")\<close>\<close>

definition replaceUnderscores :: "string \<Rightarrow> string" where
  "replaceUnderscores s = map (\<lambda>c. if c = CHR ''_'' then CHR '' '' else c) s"

text \<open>
  The regular expression class \<^verbatim>\<open>\w\<close> (without the unicode flag): the ASCII letters,
  the digits and the underscore. \<^verbatim>\<open>toUpperCase\<close> of such a character changes the
  lower-case letters only.
\<close>

definition isWordChar :: "char \<Rightarrow> bool" where
  "isWordChar c =
     (let n = (of_char c :: nat)
      in (48 \<le> n \<and> n \<le> 57) \<or> (65 \<le> n \<and> n \<le> 90) \<or> n = 95 \<or> (97 \<le> n \<and> n \<le> 122))"

definition toUpperCase :: "char \<Rightarrow> char" where
  "toUpperCase c =
     (let n = (of_char c :: nat)
      in if 97 \<le> n \<and> n \<le> 122 then char_of (n - 32) else c)"

text \<open>
  \<^verbatim>\<open>.replace(/\b\w/g, (char) => char.toUpperCase())\<close>: a word character is matched
  where a word boundary precedes it, that is at the start of the string or after a
  character that is not a word character. The flag \<open>prev\<close> says that the character
  before the current position is a word character.
\<close>

fun capitalizeFrom :: "bool \<Rightarrow> string \<Rightarrow> string" where
  "capitalizeFrom prev [] = []"
| "capitalizeFrom prev (c # cs) =
     (if isWordChar c \<and> \<not> prev then toUpperCase c else c) # capitalizeFrom (isWordChar c) cs"

definition capitalizeWords :: "string \<Rightarrow> string" where
  "capitalizeWords s = capitalizeFrom False s"

text \<open>The separator is a space, the middle dot (code unit \<open>0xB7\<close>) and a space.\<close>

definition humanizeAction :: "string \<Rightarrow> string" where
  "humanizeAction v =
     join [CHR '' '', CHR 0xB7, CHR '' '']
       (map (\<lambda>part. capitalizeWords (replaceUnderscores part)) (split CHR ''.'' v))"

text \<open>The simpler version renders \<^verbatim>\<open>approval.action_type.replace(/_/g, " ")\<close>.\<close>

definition humanizeAction0 :: "string \<Rightarrow> string" where
  "humanizeAction0 v = replaceUnderscores v"

definition statusBadgeVariant :: "string \<Rightarrow> string" where
  "statusBadgeVariant s =
     (if s = ''approved'' then ''success''
      else if s = ''rejected'' then ''danger''
      else ''outline'')"

text \<open>
  \<^verbatim>\<open>payloadValue\<close>: \<open>None\<close> is \<^verbatim>\<open>null\<close>. A key that the object does not have reads as
  \<^verbatim>\<open>undefined\<close>, which is neither a string nor a number.
\<close>

definition payloadValue ::
  "('n \<Rightarrow> string) \<Rightarrow> (string \<rightharpoonup> 'n json) option \<Rightarrow> string \<Rightarrow> string option" where
  "payloadValue numStr pl key =
     (case pl of
        None \<Rightarrow> None
      | Some obj \<Rightarrow>
          (case obj key of
             Some (JStr s) \<Rightarrow> Some s
           | Some (JNum n) \<Rightarrow> Some (numStr n)
           | _ \<Rightarrow> None))"

text \<open>The operator \<^verbatim>\<open>??\<close> and the truth value of a string or \<^verbatim>\<open>null\<close>.\<close>

definition orElse :: "'a option \<Rightarrow> 'a option \<Rightarrow> 'a option" where
  "orElse a b = (case a of None \<Rightarrow> b | Some v \<Rightarrow> Some v)"

definition truthy :: "string option \<Rightarrow> bool" where
  "truthy v = (case v of None \<Rightarrow> False | Some s \<Rightarrow> s \<noteq> [])"

text \<open>\<^verbatim>\<open>String.prototype.includes\<close>\<close>

fun startsWith :: "string \<Rightarrow> string \<Rightarrow> bool" where
  "startsWith s [] = True"
| "startsWith [] (p # ps) = False"
| "startsWith (c # cs) (p # ps) = (c = p \<and> startsWith cs ps)"

fun includes_str :: "string \<Rightarrow> string \<Rightarrow> bool" where
  "includes_str [] sub = (sub = [])"
| "includes_str (c # cs) sub = (startsWith (c # cs) sub \<or> includes_str cs sub)"

record row =
  label :: string
  value' :: string

record summary =
  taskId :: "string option"
  reason :: "string option"
  rows :: "row list"

definition approvalSummary :: "('n \<Rightarrow> string) \<Rightarrow> 'n approval \<Rightarrow> summary" where
  "approvalSummary numStr approval =
     (let pl = Some (case payload approval of None \<Rightarrow> Map.empty | Some obj \<Rightarrow> obj);
          task = orElse (payloadValue numStr pl ''task_id'')
                   (orElse (payloadValue numStr pl ''taskId'') (payloadValue numStr pl ''taskID''));
          assignedAgentId = orElse (payloadValue numStr pl ''assigned_agent_id'')
                              (payloadValue numStr pl ''assignedAgentId'');
          why = payloadValue numStr pl ''reason'';
          title = payloadValue numStr pl ''title'';
          role = payloadValue numStr pl ''role'';
          isAssign = includes_str (action_type approval) ''assign''
      in \<lparr> taskId = task,
           reason = why,
           rows =
             (if truthy task then [\<lparr> label = ''Task'', value' = the task \<rparr>] else [])
             @ (if isAssign
                then [\<lparr> label = ''Assignee'',
                        value' = (case assignedAgentId of None \<Rightarrow> ''Unassigned'' | Some v \<Rightarrow> v) \<rparr>]
                else [])
             @ (if truthy title then [\<lparr> label = ''Title'', value' = the title \<rparr>] else [])
             @ (if truthy role then [\<lparr> label = ''Role'', value' = the role \<rparr>] else []) \<rparr>)"

section \<open>Fetcher and decision submitter\<close>

text \<open>
  The component's own state (\<^verbatim>\<open>useState\<close>), its props, and what \<^verbatim>\<open>useAuth\<close> gives.
  A callback prop is a function of the host; it is identified by a handle.
\<close>

record 'n state =
  internalApprovals :: "'n approval list"
  isLoading :: bool
  error :: "string option"
  updatingId :: "string option"

datatype callback = Callback nat

datatype decision = Approved | Rejected

record 'n props =
  boardId :: string
  externalApprovals :: "'n approval list option"
  externalLoading :: "bool option"
  externalError :: "string option"
  onRefresh :: "callback option"
  onDecision :: "callback option"

text \<open>
  An awaited call either returns or throws. What is thrown is an \<^verbatim>\<open>Error\<close> object with
  its message, or some other value.
\<close>

datatype thrown = ErrorObj string | NonError

datatype 'a outcome = Throws thrown | Returns 'a

record auth =
  isSignedIn :: bool
  getToken :: "string option outcome"

record request =
  http_method :: string
  url :: string
  authorization :: string
  body :: "decision option"

record 'b response =
  ok :: bool
  json :: "'b outcome"

text \<open>
  What a call does to the outside: a network request through \<^verbatim>\<open>fetch\<close>, or a call of
  the host's decision handler.
\<close>

datatype effect = Fetch request | Delegate callback string decision

definition usingExternal :: "'n props \<Rightarrow> bool" where
  "usingExternal p = (externalApprovals p \<noteq> None)"

definition approvalsOf :: "'n props \<Rightarrow> 'n state \<Rightarrow> 'n approval list" where
  "approvalsOf p st =
     (case externalApprovals p of Some xs \<Rightarrow> xs | None \<Rightarrow> internalApprovals st)"

definition loadingState :: "'n props \<Rightarrow> 'n state \<Rightarrow> bool" where
  "loadingState p st =
     (if usingExternal p then (case externalLoading p of None \<Rightarrow> False | Some b \<Rightarrow> b)
      else isLoading st)"

definition errorState :: "'n props \<Rightarrow> 'n state \<Rightarrow> string option" where
  "errorState p st = (if usingExternal p then externalError p else error st)"

text \<open>\<^verbatim>\<open>token ? `Bearer ${token}` : ""\<close>: a missing and an empty token give no header value.\<close>

definition authorizationHeader :: "string option \<Rightarrow> string" where
  "authorizationHeader token =
     (case token of
        None \<Rightarrow> []
      | Some t \<Rightarrow> if t = [] then [] else ''Bearer '' @ t)"

text \<open>\<^verbatim>\<open>err instanceof Error ? err.message : fallback\<close>\<close>

definition catchMessage :: "string \<Rightarrow> thrown \<Rightarrow> string" where
  "catchMessage fallback err = (case err of ErrorObj m \<Rightarrow> m | NonError \<Rightarrow> fallback)"

definition loadRequest :: "string \<Rightarrow> string \<Rightarrow> string option \<Rightarrow> request" where
  "loadRequest apiBase board token =
     \<lparr> http_method = ''GET'',
       url = apiBase @ ''/api/v1/boards/'' @ board @ ''/approvals'',
       authorization = authorizationHeader token,
       body = None \<rparr>"

definition decisionRequest ::
  "string \<Rightarrow> string \<Rightarrow> string \<Rightarrow> decision \<Rightarrow> string option \<Rightarrow> request" where
  "decisionRequest apiBase board approvalId d token =
     \<lparr> http_method = ''PATCH'',
       url = apiBase @ ''/api/v1/boards/'' @ board @ ''/approvals/'' @ approvalId,
       authorization = authorizationHeader token,
       body = Some d \<rparr>"

text \<open>
  The \<^verbatim>\<open>try\<close> block shared by both calls: get the token, send the request, throw the
  given \<^verbatim>\<open>Error\<close> when the response is not ok, read the JSON body. The result is what
  was thrown (\<open>Inl\<close>) or the body (\<open>Inr\<close>), with the requests sent.
\<close>

definition tryRequest ::
  "auth \<Rightarrow> (request \<Rightarrow> 'b response outcome) \<Rightarrow> (string option \<Rightarrow> request) \<Rightarrow> string
     \<Rightarrow> (thrown + 'b) \<times> effect list" where
  "tryRequest au fetch mk notOk =
     (case getToken au of
        Throws e \<Rightarrow> (Inl e, [])
      | Returns token \<Rightarrow>
          (let req = mk token
           in case fetch req of
                Throws e \<Rightarrow> (Inl e, [Fetch req])
              | Returns res \<Rightarrow>
                  if \<not> ok res then (Inl (ErrorObj notOk), [Fetch req])
                  else (case json res of
                          Throws e \<Rightarrow> (Inl e, [Fetch req])
                        | Returns data \<Rightarrow> (Inr data, [Fetch req]))))"

text \<open>
  \<^verbatim>\<open>loadApprovals\<close>, run to completion: the state after \<^verbatim>\<open>finally\<close> and the effects.
\<close>

definition loadBody ::
  "string \<Rightarrow> string \<Rightarrow> auth \<Rightarrow> (request \<Rightarrow> 'n approval list response outcome) \<Rightarrow> 'n state
     \<Rightarrow> 'n state \<times> effect list" where
  "loadBody apiBase board au fetch st =
     (let st1 = st\<lparr> isLoading := True, error := None \<rparr>;
          (r, effs) = tryRequest au fetch (loadRequest apiBase board) ''Unable to load approvals.'';
          st2 = (case r of
                   Inr data \<Rightarrow> st1\<lparr> internalApprovals := data \<rparr>
                 | Inl err \<Rightarrow> st1\<lparr> error := Some (catchMessage ''Unable to load approvals.'' err) \<rparr>)
      in (st2\<lparr> isLoading := False \<rparr>, effs))"

definition loadApprovals ::
  "string \<Rightarrow> 'n props \<Rightarrow> auth \<Rightarrow> (request \<Rightarrow> 'n approval list response outcome) \<Rightarrow> 'n state
     \<Rightarrow> 'n state \<times> effect list" where
  "loadApprovals apiBase p au fetch st =
     (if usingExternal p then (st, [])
      else if \<not> isSignedIn au \<or> boardId p = [] then (st, [])
      else loadBody apiBase (boardId p) au fetch st)"

definition loadApprovals0 ::
  "string \<Rightarrow> string \<Rightarrow> auth \<Rightarrow> (request \<Rightarrow> 'n approval list response outcome) \<Rightarrow> 'n state
     \<Rightarrow> 'n state \<times> effect list" where
  "loadApprovals0 apiBase board au fetch st =
     (if \<not> isSignedIn au \<or> board = [] then (st, [])
      else loadBody apiBase board au fetch st)"

text \<open>\<^verbatim>\<open>handleDecision\<close>, run to completion.\<close>

definition decisionBody ::
  "string \<Rightarrow> string \<Rightarrow> auth \<Rightarrow> (request \<Rightarrow> 'n approval response outcome) \<Rightarrow> string \<Rightarrow> decision
     \<Rightarrow> 'n state \<Rightarrow> 'n state \<times> effect list" where
  "decisionBody apiBase board au fetch approvalId d st =
     (let st1 = st\<lparr> updatingId := Some approvalId, error := None \<rparr>;
          (r, effs) = tryRequest au fetch (decisionRequest apiBase board approvalId d)
                        ''Unable to update approval.'';
          st2 = (case r of
                   Inr updated \<Rightarrow>
                     st1\<lparr> internalApprovals :=
                            map (\<lambda>item. if id' item = approvalId then updated else item)
                              (internalApprovals st1) \<rparr>
                 | Inl err \<Rightarrow> st1\<lparr> error := Some (catchMessage ''Unable to update approval.'' err) \<rparr>)
      in (st2\<lparr> updatingId := None \<rparr>, effs))"

definition handleDecision ::
  "string \<Rightarrow> 'n props \<Rightarrow> auth \<Rightarrow> (request \<Rightarrow> 'n approval response outcome) \<Rightarrow> string \<Rightarrow> decision
     \<Rightarrow> 'n state \<Rightarrow> 'n state \<times> effect list" where
  "handleDecision apiBase p au fetch approvalId d st =
     (case onDecision p of
        Some handler \<Rightarrow> (st, [Delegate handler approvalId d])
      | None \<Rightarrow>
          if usingExternal p then (st, [])
          else if \<not> isSignedIn au \<or> boardId p = [] then (st, [])
          else decisionBody apiBase (boardId p) au fetch approvalId d st)"

definition handleDecision0 ::
  "string \<Rightarrow> string \<Rightarrow> auth \<Rightarrow> (request \<Rightarrow> 'n approval response outcome) \<Rightarrow> string \<Rightarrow> decision
     \<Rightarrow> 'n state \<Rightarrow> 'n state \<times> effect list" where
  "handleDecision0 apiBase board au fetch approvalId d st =
     (if \<not> isSignedIn au \<or> board = [] then (st, [])
      else decisionBody apiBase board au fetch approvalId d st)"

text \<open>The network requests among the effects of a call.\<close>

fun requests :: "effect list \<Rightarrow> request list" where
  "requests [] = []"
| "requests (Fetch r # es) = r # requests es"
| "requests (Delegate h a d # es) = requests es"

section \<open>Example data\<close>


abbreviation approvalA :: "int approval" where
  "approvalA \<equiv> \<lparr> id' = ''a'', action_type = ''task.assign'', payload = None, confidence = 95,
     rubric_scores = None, status = ''pending'', created_at = ''2024-01-01T00:00:00Z'',
     resolved_at = None \<rparr>"

abbreviation approvalB :: "int approval" where
  "approvalB \<equiv> \<lparr> id' = ''b'', action_type = ''task.create'', payload = None, confidence = 60,
     rubric_scores = None, status = ''approved'', created_at = ''2024-01-02T00:00:00Z'',
     resolved_at = None \<rparr>"



abbreviation exampleProps :: "int props" where
  "exampleProps \<equiv> \<lparr> boardId = ''board-1'', externalApprovals = None, externalLoading = None,
     externalError = None, onRefresh = None, onDecision = None \<rparr>"

abbreviation exampleAuth :: auth where
  "exampleAuth \<equiv> \<lparr> isSignedIn = True, getToken = Returns (Some ''t0k'') \<rparr>"

abbreviation exampleState :: "int state" where
  "exampleState \<equiv> \<lparr> internalApprovals = [approvalA, approvalB], isLoading = False,
     error = None, updatingId = None \<rparr>"

text \<open>\<^verbatim>\<open>String(n)\<close> on the numbers of the examples.\<close>

abbreviation exampleNumStr :: "int \<Rightarrow> string" where
  "exampleNumStr \<equiv> (\<lambda>n. if n = 42 then ''42'' else if n = 7 then ''7'' else ''0'')"

section \<open>Properties of the sort\<close>


lemma mset_sortInsert: "mset (sortInsert c x ys) = add_mset x (mset ys)"
  by (induction ys) simp_all

lemma mset_arraySort: "mset (arraySort c xs) = mset xs"
  by (induction xs) (simp_all add: mset_sortInsert)

lemma mset_sortByTime: "mset (sortByTime g xs) = mset xs"
  by (simp add: sortByTime_def mset_arraySort)

lemma set_sortByTime: "set (sortByTime g xs) = set xs"
  using mset_sortByTime [of g xs] by (metis set_mset_mset)

lemma sortedApprovals0_eq:
  "sortedApprovals0 g xs = pending (sortedApprovals g xs) @ resolved (sortedApprovals g xs)"
  by (simp add: sortedApprovals0_def sortedApprovals_def)





section \<open>Properties of the fetcher and the decision submitter\<close>

lemma tryRequest_not_ok:
  "getToken au = Returns tok \<Longrightarrow> fetch (mk tok) = Returns res \<Longrightarrow> \<not> ok res
   \<Longrightarrow> tryRequest au fetch mk msg = (Inl (ErrorObj msg), [Fetch (mk tok)])"
  by (simp add: tryRequest_def)

lemma tryRequest_success:
  "getToken au = Returns tok \<Longrightarrow> fetch (mk tok) = Returns res \<Longrightarrow> ok res
   \<Longrightarrow> json res = Returns data
   \<Longrightarrow> tryRequest au fetch mk msg = (Inr data, [Fetch (mk tok)])"
  by (simp add: tryRequest_def)

lemma tryRequest_thrown:
  "getToken au = Throws e
   \<or> (\<exists>tok. getToken au = Returns tok
        \<and> (fetch (mk tok) = Throws e
           \<or> (\<exists>res. fetch (mk tok) = Returns res \<and> ok res \<and> json res = Throws e)))
   \<Longrightarrow> fst (tryRequest au fetch mk msg) = Inl e"
  by (auto simp: tryRequest_def)

lemma loadBody_Inl:
  "fst (tryRequest au fetch (loadRequest apiBase board) ''Unable to load approvals.'') = Inl e
   \<Longrightarrow> fst (loadBody apiBase board au fetch st)
       = st\<lparr> isLoading := False, error := Some (catchMessage ''Unable to load approvals.'' e) \<rparr>"
  by (cases "tryRequest au fetch (loadRequest apiBase board) ''Unable to load approvals.''")
     (simp add: loadBody_def)

lemma decisionBody_Inl:
  "fst (tryRequest au fetch (decisionRequest apiBase board aid d) ''Unable to update approval.'') = Inl e
   \<Longrightarrow> fst (decisionBody apiBase board au fetch aid d st)
       = st\<lparr> updatingId := None, error := Some (catchMessage ''Unable to update approval.'' e) \<rparr>"
  by (cases "tryRequest au fetch (decisionRequest apiBase board aid d) ''Unable to update approval.''")
     (simp add: decisionBody_def)

lemma decisionBody_Inr:
  "fst (tryRequest au fetch (decisionRequest apiBase board aid d) ''Unable to update approval.'') = Inr u
   \<Longrightarrow> fst (decisionBody apiBase board au fetch aid d st)
       = st\<lparr> updatingId := None, error := None,
             internalApprovals := map (\<lambda>item. if id' item = aid then u else item) (internalApprovals st) \<rparr>"
  by (cases "tryRequest au fetch (decisionRequest apiBase board aid d) ''Unable to update approval.''")
     (simp add: decisionBody_def)

lemma decisionBody_updatingId:
  "updatingId (fst (decisionBody apiBase board au fetch aid d st)) = None"
  by (cases "tryRequest au fetch (decisionRequest apiBase board aid d) ''Unable to update approval.''")
     (simp add: decisionBody_def Let_def split: sum.splits)

section \<open>Properties of the payload summary\<close>

lemma payloadValue_default:
  "payloadValue numStr (Some (case pl of None \<Rightarrow> Map.empty | Some obj \<Rightarrow> obj)) k
     = payloadValue numStr pl k"
  by (cases pl) (simp_all add: payloadValue_def)

lemma approvalSummary_unfold:
  "approvalSummary numStr a =
     \<lparr> taskId = orElse (payloadValue numStr (payload a) ''task_id'')
                 (orElse (payloadValue numStr (payload a) ''taskId'')
                    (payloadValue numStr (payload a) ''taskID'')),
       reason = payloadValue numStr (payload a) ''reason'',
       rows =
         (if truthy (orElse (payloadValue numStr (payload a) ''task_id'')
                 (orElse (payloadValue numStr (payload a) ''taskId'')
                    (payloadValue numStr (payload a) ''taskID'')))
          then [\<lparr> label = ''Task'', value' = the (orElse (payloadValue numStr (payload a) ''task_id'')
                 (orElse (payloadValue numStr (payload a) ''taskId'')
                    (payloadValue numStr (payload a) ''taskID''))) \<rparr>] else [])
         @ (if includes_str (action_type a) ''assign''
            then [\<lparr> label = ''Assignee'',
                    value' = (case orElse (payloadValue numStr (payload a) ''assigned_agent_id'')
                                     (payloadValue numStr (payload a) ''assignedAgentId'')
                              of None \<Rightarrow> ''Unassigned'' | Some v \<Rightarrow> v) \<rparr>]
            else [])
         @ (if truthy (payloadValue numStr (payload a) ''title'')
            then [\<lparr> label = ''Title'', value' = the (payloadValue numStr (payload a) ''title'') \<rparr>] else [])
         @ (if truthy (payloadValue numStr (payload a) ''role'')
            then [\<lparr> label = ''Role'', value' = the (payloadValue numStr (payload a) ''role'') \<rparr>] else []) \<rparr>"
  unfolding approvalSummary_def Let_def payloadValue_default ..

lemma approvalSummary_cong:
  assumes "action_type a = action_type b"
    and "\<And>k. payloadValue numStr (payload a) k = payloadValue numStr (payload b) k"
  shows "approvalSummary numStr a = approvalSummary numStr b"
  unfolding approvalSummary_unfold by (simp only: assms)

lemma payloadValue_nonscalar:
  assumes "\<forall>s. v \<noteq> JStr s" "\<forall>n. v \<noteq> JNum n"
  shows "payloadValue numStr (Some (obj(k \<mapsto> v))) k' = payloadValue numStr (Some (obj(k := None))) k'"
  using assms by (cases v) (simp_all add: payloadValue_def)

lemma orElse_Some_iff: "orElse a b = Some v \<longleftrightarrow> a = Some v \<or> (a = None \<and> b = Some v)"
  by (cases a) (auto simp: orElse_def)

lemma orElse_None_iff: "orElse a b = None \<longleftrightarrow> a = None \<and> b = None"
  by (cases a) (auto simp: orElse_def)

lemma truthy_iff: "truthy x \<longleftrightarrow> (\<exists>v. x = Some v \<and> v \<noteq> [])"
  by (cases x) (auto simp: truthy_def)

lemma row_in_optional:
  "r \<in> set (if truthy t then [\<lparr> label = L, value' = the t \<rparr>] else [])
   \<longleftrightarrow> label r = L \<and> value' r \<noteq> [] \<and> t = Some (value' r)"
  by (cases r; cases t) (auto simp: truthy_def)

lemma row_is_assignee:
  "r = \<lparr> label = L, value' = (case g of None \<Rightarrow> U | Some v \<Rightarrow> v) \<rparr>
   \<longleftrightarrow> label r = L \<and> (g = Some (value' r) \<or> (value' r = U \<and> g = None))"
  by (cases r; cases g) auto

lemma rows_members:
  "r \<in> set ((if truthy t then [\<lparr> label = L1, value' = the t \<rparr>] else [])
          @ [\<lparr> label = L2, value' = (case g of None \<Rightarrow> U | Some v \<Rightarrow> v) \<rparr>]
          @ (if truthy ti then [\<lparr> label = L3, value' = the ti \<rparr>] else [])
          @ (if truthy ro then [\<lparr> label = L4, value' = the ro \<rparr>] else []))
   \<longleftrightarrow> (label r = L1 \<and> value' r \<noteq> [] \<and> t = Some (value' r))
       \<or> (label r = L2 \<and> (g = Some (value' r) \<or> (value' r = U \<and> g = None)))
       \<or> (label r = L3 \<and> value' r \<noteq> [] \<and> ti = Some (value' r))
       \<or> (label r = L4 \<and> value' r \<noteq> [] \<and> ro = Some (value' r))"
  unfolding set_append Un_iff row_in_optional
  by (simp only: list.set insert_iff empty_iff row_is_assignee simp_thms)

section \<open>Claims\<close>

text \<open>
  C1. The partition into pending and resolved is a strict complement. The pending list
  holds exactly the records of the collection whose status is \<open>pending\<close>, the resolved
  list exactly the others, each with the multiplicity it has in the collection, and no
  record is in both. The simpler version's list is the two lists one after the other.
\<close>

theorem partition_strict_complement:
  "mset (pending (sortedApprovals g xs)) = filter_mset (\<lambda>a. status a = ''pending'') (mset xs)
   \<and> mset (resolved (sortedApprovals g xs)) = filter_mset (\<lambda>a. status a \<noteq> ''pending'') (mset xs)
   \<and> mset (pending (sortedApprovals g xs)) + mset (resolved (sortedApprovals g xs)) = mset xs
   \<and> set (pending (sortedApprovals g xs)) \<inter> set (resolved (sortedApprovals g xs)) = {}
   \<and> mset (sortedApprovals0 g xs) = mset xs
   \<and> sortedApprovals0 g xs = pending (sortedApprovals g xs) @ resolved (sortedApprovals g xs)"
proof -
  let ?P = "\<lambda>a::'a approval. status a = ''pending''"
  have p: "mset (pending (sortedApprovals g xs)) = filter_mset ?P (mset xs)"
    by (simp add: sortedApprovals_def mset_sortByTime)
  have r: "mset (resolved (sortedApprovals g xs)) = filter_mset (\<lambda>a. \<not> ?P a) (mset xs)"
    by (simp add: sortedApprovals_def mset_sortByTime)
  have s: "mset (pending (sortedApprovals g xs)) + mset (resolved (sortedApprovals g xs)) = mset xs"
    unfolding p r by (rule multiset_partition [symmetric])
  have d: "set (pending (sortedApprovals g xs)) \<inter> set (resolved (sortedApprovals g xs)) = {}"
    by (auto simp: sortedApprovals_def set_sortByTime)
  have e: "sortedApprovals0 g xs = pending (sortedApprovals g xs) @ resolved (sortedApprovals g xs)"
    by (rule sortedApprovals0_eq)
  have f: "mset (sortedApprovals0 g xs) = mset xs"
    unfolding e using s by simp
  from p r s d e f show ?thesis by blast
qed



text \<open>
  C3. A successful decision (the token is obtained, the PATCH response is ok and its
  body is the updated record) keeps the length of the approval list and, position by
  position, puts the returned record where the record's id is the target id and leaves
  every other record as it was. Nothing is appended, removed or moved.
\<close>

theorem decision_replaces_target_only:
  assumes guard: "onDecision p = None" "\<not> usingExternal p" "isSignedIn au" "boardId p \<noteq> []"
    and tok: "getToken au = Returns tok"
    and res: "fetch (decisionRequest apiBase (boardId p) aid d tok) = Returns res"
    and ok: "ok res" and upd: "json res = Returns updated"
    and st': "st' = fst (handleDecision apiBase p au fetch aid d st)
              \<or> st' = fst (handleDecision0 apiBase (boardId p) au fetch aid d st)"
  shows "length (internalApprovals st') = length (internalApprovals st)
    \<and> (\<forall>i < length (internalApprovals st).
          internalApprovals st' ! i =
            (if id' (internalApprovals st ! i) = aid then updated else internalApprovals st ! i))"
proof -
  have "fst (tryRequest au fetch (decisionRequest apiBase (boardId p) aid d) ''Unable to update approval.'') = Inr updated"
    using tok res ok upd by (simp add: tryRequest_def)
  then have b: "fst (decisionBody apiBase (boardId p) au fetch aid d st)
       = st\<lparr> updatingId := None, error := None,
             internalApprovals := map (\<lambda>item. if id' item = aid then updated else item) (internalApprovals st) \<rparr>"
    by (rule decisionBody_Inr)
  have "st' = fst (decisionBody apiBase (boardId p) au fetch aid d st)"
    using st' guard by (auto simp: handleDecision_def handleDecision0_def)
  with b show ?thesis by simp
qed


theorem decision_replaces_target_only_witness:
  "internalApprovals (fst (handleDecision ''https://api'' exampleProps exampleAuth
      (\<lambda>req. Returns \<lparr> ok = True, json = Returns (approvalA\<lparr> status := ''approved'' \<rparr>) \<rparr>)
      ''a'' Approved exampleState))
    = [approvalA\<lparr> status := ''approved'' \<rparr>, approvalB]"
proof -
  let ?fetch = "\<lambda>req::request. Returns \<lparr> ok = True, json = Returns (approvalA\<lparr> status := ''approved'' \<rparr>) \<rparr>"
  let ?st' = "fst (handleDecision ''https://api'' exampleProps exampleAuth ?fetch ''a'' Approved exampleState)"
  have t: "length (internalApprovals ?st') = length (internalApprovals exampleState)
    \<and> (\<forall>i < length (internalApprovals exampleState).
          internalApprovals ?st' ! i =
            (if id' (internalApprovals exampleState ! i) = ''a'' then approvalA\<lparr> status := ''approved'' \<rparr>
             else internalApprovals exampleState ! i))"
    by (rule decision_replaces_target_only [where p = exampleProps and au = exampleAuth
          and tok = "Some ''t0k'' " and fetch = ?fetch and apiBase = "''https://api''"
          and res = "\<lparr> ok = True, json = Returns (approvalA\<lparr> status := ''approved'' \<rparr>) \<rparr>"
          and d = Approved and aid = "''a''" and st = exampleState and st' = ?st'
          and updated = "approvalA\<lparr> status := ''approved'' \<rparr>"])
       (simp_all add: usingExternal_def)
  from t have l: "length (internalApprovals ?st') = 2" by simp
  from t have a: "internalApprovals ?st' ! 0 = approvalA\<lparr> status := ''approved'' \<rparr>" by simp
  from t have "1 < length (internalApprovals exampleState) \<longrightarrow> internalApprovals ?st' ! 1 =
            (if id' (internalApprovals exampleState ! 1) = ''a'' then approvalA\<lparr> status := ''approved'' \<rparr>
             else internalApprovals exampleState ! 1)" by blast
  then have b: "internalApprovals ?st' ! 1 = approvalB" by simp
  show ?thesis
  proof (rule nth_equalityI)
    show "length (internalApprovals ?st') = length [approvalA\<lparr> status := ''approved'' \<rparr>, approvalB]"
      using l by simp
  next
    fix i assume "i < length (internalApprovals ?st')"
    then have "i = 0 \<or> i = 1" using l by auto
    then show "internalApprovals ?st' ! i = [approvalA\<lparr> status := ''approved'' \<rparr>, approvalB] ! i"
      using a b by auto
  qed
qed

text \<open>
  C4. When a fetch is made and fails, the approval collection stays as it was and the
  error becomes a string: \<open>Unable to load approvals.\<close> for a response that is not ok,
  and for a thrown value its own message when it is an \<^verbatim>\<open>Error\<close>, the same default
  text otherwise. A thrown value is one thrown by the token call, by \<^verbatim>\<open>fetch\<close> or by
  reading the JSON body.
\<close>

theorem failed_fetch_keeps_collection:
  assumes guard: "\<not> usingExternal p" "isSignedIn au" "boardId p \<noteq> []"
    and st': "st' = fst (loadApprovals apiBase p au fetch st)
              \<or> st' = fst (loadApprovals0 apiBase (boardId p) au fetch st)"
  shows "(\<forall>tok res. getToken au = Returns tok
            \<longrightarrow> fetch (loadRequest apiBase (boardId p) tok) = Returns res
            \<longrightarrow> \<not> ok res
            \<longrightarrow> internalApprovals st' = internalApprovals st
                \<and> error st' = Some ''Unable to load approvals.'')
    \<and> (\<forall>e. (getToken au = Throws e
              \<or> (\<exists>tok. getToken au = Returns tok
                   \<and> (fetch (loadRequest apiBase (boardId p) tok) = Throws e
                      \<or> (\<exists>res. fetch (loadRequest apiBase (boardId p) tok) = Returns res
                            \<and> ok res \<and> json res = Throws e))))
            \<longrightarrow> internalApprovals st' = internalApprovals st
                \<and> error st' = Some (case e of ErrorObj m \<Rightarrow> m | NonError \<Rightarrow> ''Unable to load approvals.''))"
proof -
  have eq: "st' = fst (loadBody apiBase (boardId p) au fetch st)"
    using st' guard by (auto simp: loadApprovals_def loadApprovals0_def)
  show ?thesis
  proof (intro conjI allI impI)
    fix tok res
    assume "getToken au = Returns tok"
      and "fetch (loadRequest apiBase (boardId p) tok) = Returns res" and "\<not> ok res"
    then have "fst (tryRequest au fetch (loadRequest apiBase (boardId p)) ''Unable to load approvals.'')
        = Inl (ErrorObj ''Unable to load approvals.'')"
      by (simp add: tryRequest_def)
    from loadBody_Inl [OF this] eq
    show "internalApprovals st' = internalApprovals st"
      and "error st' = Some ''Unable to load approvals.''"
      by (simp_all add: catchMessage_def)
  next
    fix e
    assume "getToken au = Throws e
              \<or> (\<exists>tok. getToken au = Returns tok
                   \<and> (fetch (loadRequest apiBase (boardId p) tok) = Throws e
                      \<or> (\<exists>res. fetch (loadRequest apiBase (boardId p) tok) = Returns res
                            \<and> ok res \<and> json res = Throws e)))"
    then have "fst (tryRequest au fetch (loadRequest apiBase (boardId p)) ''Unable to load approvals.'') = Inl e"
      by (rule tryRequest_thrown)
    from loadBody_Inl [OF this] eq
    show "internalApprovals st' = internalApprovals st"
      and "error st' = Some (case e of ErrorObj m \<Rightarrow> m | NonError \<Rightarrow> ''Unable to load approvals.'')"
      by (simp_all add: catchMessage_def)
  qed
qed

theorem failed_fetch_keeps_collection_witness:
  "internalApprovals (fst (loadApprovals ''https://api'' exampleProps exampleAuth
      (\<lambda>req. Returns \<lparr> ok = False, json = Throws NonError \<rparr>) exampleState))
     = [approvalA, approvalB]
   \<and> error (fst (loadApprovals ''https://api'' exampleProps exampleAuth
      (\<lambda>req. Returns \<lparr> ok = False, json = Throws NonError \<rparr>) exampleState))
     = Some ''Unable to load approvals.''
   \<and> internalApprovals (fst (loadApprovals0 ''https://api'' ''board-1'' exampleAuth
      (\<lambda>req. Throws (ErrorObj ''Failed to fetch'')) exampleState))
     = [approvalA, approvalB]
   \<and> error (fst (loadApprovals0 ''https://api'' ''board-1'' exampleAuth
      (\<lambda>req. Throws (ErrorObj ''Failed to fetch'')) exampleState))
     = Some ''Failed to fetch''"
proof -
  let ?f1 = "\<lambda>req::request. Returns \<lparr> ok = False, json = (Throws NonError :: int approval list outcome) \<rparr>"
  let ?f2 = "\<lambda>req::request. (Throws (ErrorObj ''Failed to fetch'') :: int approval list response outcome)"
  have a: "internalApprovals (fst (loadApprovals ''https://api'' exampleProps exampleAuth ?f1 exampleState))
             = internalApprovals exampleState
         \<and> error (fst (loadApprovals ''https://api'' exampleProps exampleAuth ?f1 exampleState))
             = Some ''Unable to load approvals.''"
    by (rule failed_fetch_keeps_collection [where p = exampleProps and au = exampleAuth
          and fetch = ?f1 and apiBase = "''https://api''" and st = exampleState,
          THEN conjunct1, rule_format, where tok = "Some ''t0k''"
          and res = "\<lparr> ok = False, json = Throws NonError \<rparr>"])
       (simp_all add: usingExternal_def)
  have b: "internalApprovals (fst (loadApprovals0 ''https://api'' (boardId exampleProps) exampleAuth ?f2 exampleState))
             = internalApprovals exampleState
         \<and> error (fst (loadApprovals0 ''https://api'' (boardId exampleProps) exampleAuth ?f2 exampleState))
             = Some (case ErrorObj ''Failed to fetch'' of ErrorObj m \<Rightarrow> m | NonError \<Rightarrow> ''Unable to load approvals.'')"
    by (rule failed_fetch_keeps_collection [where p = exampleProps and au = exampleAuth
          and fetch = ?f2 and apiBase = "''https://api''" and st = exampleState,
          THEN conjunct2, rule_format])
       (simp_all add: usingExternal_def)
  from a b show ?thesis by simp
qed

text \<open>
  C5. When a decision request is made and the PATCH response is not ok, the error
  becomes \<open>Unable to update approval.\<close> and the approval list, hence the status of
  the target record, stays as it was. Whatever the outcome of the request, the updating
  marker is cleared at the end.
\<close>

theorem failed_decision_keeps_state:
  assumes guard: "onDecision p = None" "\<not> usingExternal p" "isSignedIn au" "boardId p \<noteq> []"
    and st': "st' = fst (handleDecision apiBase p au fetch aid d st)
              \<or> st' = fst (handleDecision0 apiBase (boardId p) au fetch aid d st)"
  shows "(\<forall>tok res. getToken au = Returns tok
            \<longrightarrow> fetch (decisionRequest apiBase (boardId p) aid d tok) = Returns res
            \<longrightarrow> \<not> ok res
            \<longrightarrow> error st' = Some ''Unable to update approval.''
                \<and> internalApprovals st' = internalApprovals st
                \<and> map status (internalApprovals st') = map status (internalApprovals st))
    \<and> updatingId st' = None"
proof -
  have eq: "st' = fst (decisionBody apiBase (boardId p) au fetch aid d st)"
    using st' guard by (auto simp: handleDecision_def handleDecision0_def)
  show ?thesis
  proof (intro conjI allI impI)
    fix tok res
    assume "getToken au = Returns tok"
      and "fetch (decisionRequest apiBase (boardId p) aid d tok) = Returns res" and "\<not> ok res"
    then have "fst (tryRequest au fetch (decisionRequest apiBase (boardId p) aid d)
                  ''Unable to update approval.'')
        = Inl (ErrorObj ''Unable to update approval.'')"
      by (simp add: tryRequest_def)
    from decisionBody_Inl [OF this] eq
    show "error st' = Some ''Unable to update approval.''"
      and "internalApprovals st' = internalApprovals st"
      and "map status (internalApprovals st') = map status (internalApprovals st)"
      by (simp_all add: catchMessage_def)
  next
    show "updatingId st' = None"
      unfolding eq by (rule decisionBody_updatingId)
  qed
qed

theorem failed_decision_keeps_state_witness:
  "error (fst (handleDecision ''https://api'' exampleProps exampleAuth
       (\<lambda>req. Returns \<lparr> ok = False, json = Throws NonError \<rparr>) ''a'' Approved
       (exampleState\<lparr> updatingId := Some ''b'' \<rparr>)))
     = Some ''Unable to update approval.''
   \<and> internalApprovals (fst (handleDecision ''https://api'' exampleProps exampleAuth
       (\<lambda>req. Returns \<lparr> ok = False, json = Throws NonError \<rparr>) ''a'' Approved
       (exampleState\<lparr> updatingId := Some ''b'' \<rparr>)))
     = [approvalA, approvalB]
   \<and> updatingId (fst (handleDecision ''https://api'' exampleProps exampleAuth
       (\<lambda>req. Returns \<lparr> ok = False, json = Throws NonError \<rparr>) ''a'' Approved
       (exampleState\<lparr> updatingId := Some ''b'' \<rparr>)))
     = None"
proof -
  let ?f = "\<lambda>req::request. Returns \<lparr> ok = False, json = (Throws NonError :: int approval outcome) \<rparr>"
  let ?st = "exampleState\<lparr> updatingId := Some ''b'' \<rparr>"
  let ?st' = "fst (handleDecision ''https://api'' exampleProps exampleAuth ?f ''a'' Approved ?st)"
  note t = failed_decision_keeps_state [where p = exampleProps and au = exampleAuth
      and fetch = ?f and apiBase = "''https://api''" and st = ?st and st' = ?st'
      and aid = "''a''" and d = Approved]
  have a: "error ?st' = Some ''Unable to update approval.''
         \<and> internalApprovals ?st' = internalApprovals ?st
         \<and> map status (internalApprovals ?st') = map status (internalApprovals ?st)"
    by (rule t [THEN conjunct1, rule_format, where tok = "Some ''t0k''"
          and res = "\<lparr> ok = False, json = Throws NonError \<rparr>"])
       (simp_all add: usingExternal_def)
  have b: "updatingId ?st' = None"
    by (rule t [THEN conjunct2]) (simp_all add: usingExternal_def)
  from a b show ?thesis by simp
qed

text \<open>
  C6, as amended. The title-cased version renders \<open>task.assign_role\<close> as \<open>Task\<close>,
  the separator, \<open>Assign Role\<close>. The simpler version replaces the underscores only and
  keeps the dot: it renders \<open>task.assign role\<close>.
\<close>

theorem humanize_scenario:
  "humanizeAction ''task.assign_role'' = ''Task'' @ [CHR '' '', CHR 0xB7, CHR '' ''] @ ''Assign Role''
   \<and> humanizeAction0 ''task.assign_role'' = ''task.assign role''"
  by code_simp

text \<open>C6 as stated fails: the simpler version does not produce \<open>task assign role\<close>.\<close>

theorem humanize_simple_counterexample:
  "humanizeAction0 ''task.assign_role'' \<noteq> ''task assign role''"
  by code_simp

text \<open>
  C7, as amended. For an approval whose action type contains \<open>assign\<close>, the summary
  reads the reason under \<open>reason\<close>, the task id under \<open>task_id\<close>, \<open>taskId\<close> and
  \<open>taskID\<close>, the assignee under \<open>assigned_agent_id\<close> and \<open>assignedAgentId\<close>, the
  title and the role under \<open>title\<close> and \<open>role\<close>, an earlier spelling winning over a
  later one. A Task, Title or Role row is rendered only with a non-empty value found in
  the payload, and every such value found is rendered. There is always exactly one
  Assignee row: it shows the assignee found in the payload, and \<open>Unassigned\<close> when
  the payload has none.
\<close>

theorem summary_rows_assignment:
  assumes assign: "includes_str (action_type a) ''assign''"
  shows
  "reason (approvalSummary numStr a) = payloadValue numStr (payload a) ''reason''
   \<and> (\<forall>r \<in> set (rows (approvalSummary numStr a)).
        (label r = ''Task'' \<and> value' r \<noteq> []
           \<and> (payloadValue numStr (payload a) ''task_id'' = Some (value' r)
              \<or> payloadValue numStr (payload a) ''taskId'' = Some (value' r)
              \<or> payloadValue numStr (payload a) ''taskID'' = Some (value' r)))
      \<or> (label r = ''Assignee''
           \<and> (payloadValue numStr (payload a) ''assigned_agent_id'' = Some (value' r)
              \<or> payloadValue numStr (payload a) ''assignedAgentId'' = Some (value' r)
              \<or> (value' r = ''Unassigned''
                  \<and> payloadValue numStr (payload a) ''assigned_agent_id'' = None
                  \<and> payloadValue numStr (payload a) ''assignedAgentId'' = None)))
      \<or> (label r = ''Title'' \<and> value' r \<noteq> []
           \<and> payloadValue numStr (payload a) ''title'' = Some (value' r))
      \<or> (label r = ''Role'' \<and> value' r \<noteq> []
           \<and> payloadValue numStr (payload a) ''role'' = Some (value' r)))
   \<and> length (filter (\<lambda>r. label r = ''Assignee'') (rows (approvalSummary numStr a))) = 1
   \<and> (\<forall>v. v \<noteq> []
         \<longrightarrow> (payloadValue numStr (payload a) ''task_id'' = Some v
              \<or> (payloadValue numStr (payload a) ''task_id'' = None
                  \<and> payloadValue numStr (payload a) ''taskId'' = Some v)
              \<or> (payloadValue numStr (payload a) ''task_id'' = None
                  \<and> payloadValue numStr (payload a) ''taskId'' = None
                  \<and> payloadValue numStr (payload a) ''taskID'' = Some v))
         \<longrightarrow> \<lparr> label = ''Task'', value' = v \<rparr> \<in> set (rows (approvalSummary numStr a)))
   \<and> (\<forall>v. (payloadValue numStr (payload a) ''assigned_agent_id'' = Some v
              \<or> (payloadValue numStr (payload a) ''assigned_agent_id'' = None
                  \<and> payloadValue numStr (payload a) ''assignedAgentId'' = Some v))
         \<longrightarrow> \<lparr> label = ''Assignee'', value' = v \<rparr> \<in> set (rows (approvalSummary numStr a)))
   \<and> (\<forall>v. v \<noteq> [] \<longrightarrow> payloadValue numStr (payload a) ''title'' = Some v
         \<longrightarrow> \<lparr> label = ''Title'', value' = v \<rparr> \<in> set (rows (approvalSummary numStr a)))
   \<and> (\<forall>v. v \<noteq> [] \<longrightarrow> payloadValue numStr (payload a) ''role'' = Some v
         \<longrightarrow> \<lparr> label = ''Role'', value' = v \<rparr> \<in> set (rows (approvalSummary numStr a)))"
proof -
  let ?pv = "payloadValue numStr (payload a)"
  let ?t = "orElse (?pv ''task_id'') (orElse (?pv ''taskId'') (?pv ''taskID''))"
  let ?g = "orElse (?pv ''assigned_agent_id'') (?pv ''assignedAgentId'')"
  let ?rows = "rows (approvalSummary numStr a)"
  have rows: "?rows =
      (if truthy ?t then [\<lparr> label = ''Task'', value' = the ?t \<rparr>] else [])
      @ [\<lparr> label = ''Assignee'', value' = (case ?g of None \<Rightarrow> ''Unassigned'' | Some v \<Rightarrow> v) \<rparr>]
      @ (if truthy (?pv ''title'') then [\<lparr> label = ''Title'', value' = the (?pv ''title'') \<rparr>] else [])
      @ (if truthy (?pv ''role'') then [\<lparr> label = ''Role'', value' = the (?pv ''role'') \<rparr>] else [])"
    using assign by (simp add: approvalSummary_unfold)
  have mem: "\<And>r. r \<in> set ?rows \<longleftrightarrow>
         (label r = ''Task'' \<and> value' r \<noteq> [] \<and> ?t = Some (value' r))
       \<or> (label r = ''Assignee'' \<and> (?g = Some (value' r) \<or> (value' r = ''Unassigned'' \<and> ?g = None)))
       \<or> (label r = ''Title'' \<and> value' r \<noteq> [] \<and> ?pv ''title'' = Some (value' r))
       \<or> (label r = ''Role'' \<and> value' r \<noteq> [] \<and> ?pv ''role'' = Some (value' r))"
    unfolding rows by (rule rows_members)
  have c1: "reason (approvalSummary numStr a) = ?pv ''reason''"
    by (simp add: approvalSummary_unfold)
  have c2: "\<forall>r \<in> set ?rows.
        (label r = ''Task'' \<and> value' r \<noteq> []
           \<and> (?pv ''task_id'' = Some (value' r) \<or> ?pv ''taskId'' = Some (value' r)
              \<or> ?pv ''taskID'' = Some (value' r)))
      \<or> (label r = ''Assignee''
           \<and> (?pv ''assigned_agent_id'' = Some (value' r) \<or> ?pv ''assignedAgentId'' = Some (value' r)
              \<or> (value' r = ''Unassigned'' \<and> ?pv ''assigned_agent_id'' = None
                  \<and> ?pv ''assignedAgentId'' = None)))
      \<or> (label r = ''Title'' \<and> value' r \<noteq> [] \<and> ?pv ''title'' = Some (value' r))
      \<or> (label r = ''Role'' \<and> value' r \<noteq> [] \<and> ?pv ''role'' = Some (value' r))"
  proof
    fix r assume "r \<in> set ?rows"
    then show "(label r = ''Task'' \<and> value' r \<noteq> []
           \<and> (?pv ''task_id'' = Some (value' r) \<or> ?pv ''taskId'' = Some (value' r)
              \<or> ?pv ''taskID'' = Some (value' r)))
      \<or> (label r = ''Assignee''
           \<and> (?pv ''assigned_agent_id'' = Some (value' r) \<or> ?pv ''assignedAgentId'' = Some (value' r)
              \<or> (value' r = ''Unassigned'' \<and> ?pv ''assigned_agent_id'' = None
                  \<and> ?pv ''assignedAgentId'' = None)))
      \<or> (label r = ''Title'' \<and> value' r \<noteq> [] \<and> ?pv ''title'' = Some (value' r))
      \<or> (label r = ''Role'' \<and> value' r \<noteq> [] \<and> ?pv ''role'' = Some (value' r))"
      unfolding mem orElse_Some_iff orElse_None_iff by blast
  qed
  have c3: "length (filter (\<lambda>r. label r = ''Assignee'') ?rows) = 1"
    unfolding rows by simp
  have c4: "\<forall>v. v \<noteq> []
         \<longrightarrow> (?pv ''task_id'' = Some v
              \<or> (?pv ''task_id'' = None \<and> ?pv ''taskId'' = Some v)
              \<or> (?pv ''task_id'' = None \<and> ?pv ''taskId'' = None \<and> ?pv ''taskID'' = Some v))
         \<longrightarrow> \<lparr> label = ''Task'', value' = v \<rparr> \<in> set ?rows"
    unfolding mem orElse_Some_iff by simp
  have c5: "\<forall>v. (?pv ''assigned_agent_id'' = Some v
              \<or> (?pv ''assigned_agent_id'' = None \<and> ?pv ''assignedAgentId'' = Some v))
         \<longrightarrow> \<lparr> label = ''Assignee'', value' = v \<rparr> \<in> set ?rows"
    unfolding mem orElse_Some_iff by simp
  have c6: "\<forall>v. v \<noteq> [] \<longrightarrow> ?pv ''title'' = Some v
         \<longrightarrow> \<lparr> label = ''Title'', value' = v \<rparr> \<in> set ?rows"
    unfolding mem by simp
  have c7: "\<forall>v. v \<noteq> [] \<longrightarrow> ?pv ''role'' = Some v
         \<longrightarrow> \<lparr> label = ''Role'', value' = v \<rparr> \<in> set ?rows"
    unfolding mem by simp
  from c1 c2 c3 c4 c5 c6 c7 show ?thesis by (intro conjI)
qed

theorem summary_rows_assignment_witness:
  "includes_str (action_type approvalA) ''assign''
   \<and> \<lparr> label = ''Task'', value' = ''42'' \<rparr>
       \<in> set (rows (approvalSummary exampleNumStr (approvalA\<lparr> payload :=
            Some [''taskId'' \<mapsto> JNum 42, ''assignedAgentId'' \<mapsto> JStr ''agent-7'',
                  ''title'' \<mapsto> JBool True] \<rparr>)))
   \<and> \<lparr> label = ''Assignee'', value' = ''agent-7'' \<rparr>
       \<in> set (rows (approvalSummary exampleNumStr (approvalA\<lparr> payload :=
            Some [''taskId'' \<mapsto> JNum 42, ''assignedAgentId'' \<mapsto> JStr ''agent-7'',
                  ''title'' \<mapsto> JBool True] \<rparr>)))
   \<and> length (filter (\<lambda>r. label r = ''Assignee'')
        (rows (approvalSummary exampleNumStr (approvalA\<lparr> payload :=
            Some [''taskId'' \<mapsto> JNum 42, ''assignedAgentId'' \<mapsto> JStr ''agent-7'',
                  ''title'' \<mapsto> JBool True] \<rparr>)))) = 1"
proof -
  let ?a = "approvalA\<lparr> payload :=
            Some [''taskId'' \<mapsto> JNum 42, ''assignedAgentId'' \<mapsto> JStr ''agent-7'',
                  ''title'' \<mapsto> JBool True] \<rparr>"
  have h: "includes_str (action_type ?a) ''assign''" by simp
  note t = summary_rows_assignment [OF h, where numStr = exampleNumStr]
  have 1: "\<lparr> label = ''Task'', value' = ''42'' \<rparr> \<in> set (rows (approvalSummary exampleNumStr ?a))"
    by (rule t [THEN conjunct2, THEN conjunct2, THEN conjunct2, THEN conjunct1, rule_format])
       (simp_all add: payloadValue_def)
  have 2: "\<lparr> label = ''Assignee'', value' = ''agent-7'' \<rparr> \<in> set (rows (approvalSummary exampleNumStr ?a))"
    by (rule t [THEN conjunct2, THEN conjunct2, THEN conjunct2, THEN conjunct2, THEN conjunct1, rule_format])
       (simp_all add: payloadValue_def)
  have 3: "length (filter (\<lambda>r. label r = ''Assignee'') (rows (approvalSummary exampleNumStr ?a))) = 1"
    by (rule t [THEN conjunct2, THEN conjunct2, THEN conjunct1])
  from h 1 2 3 show ?thesis by simp
qed

text \<open>
  C7 as stated fails: an assignment approval without a payload still gets a row, the
  Assignee row with the value \<open>Unassigned\<close>.
\<close>

theorem summary_unassigned_counterexample:
  "payload approvalA = None
   \<and> rows (approvalSummary exampleNumStr approvalA)
       = [\<lparr> label = ''Assignee'', value' = ''Unassigned'' \<rparr>]"
  by (simp add: approvalSummary_unfold payloadValue_def orElse_def truthy_def)

text \<open>
  C8, as amended. When the session is not signed in or the board identifier is empty,
  the fetcher does nothing, and the decision submitter does nothing unless the host
  supplied a decision handler: then it calls the handler with the approval id and the
  status, as the call comes before the check, and does nothing else. In every case the
  component sends no network request and the state (approval collection, loading flag,
  error, updating marker) stays as it was.
\<close>

theorem not_signed_in_noop:
  assumes "\<not> isSignedIn au \<or> boardId p = []"
  shows "loadApprovals apiBase p au fetch st = (st, [])
    \<and> handleDecision apiBase p au fetch' aid d st
        = (st, case onDecision p of None \<Rightarrow> [] | Some handler \<Rightarrow> [Delegate handler aid d])
    \<and> requests (snd (loadApprovals apiBase p au fetch st)) = []
    \<and> requests (snd (handleDecision apiBase p au fetch' aid d st)) = []
    \<and> loadApprovals0 apiBase (boardId p) au fetch st = (st, [])
    \<and> handleDecision0 apiBase (boardId p) au fetch' aid d st = (st, [])"
  using assms
  by (auto simp: loadApprovals_def handleDecision_def loadApprovals0_def handleDecision0_def
      split: option.splits)

theorem not_signed_in_noop_witness:
  "loadApprovals ''https://api'' exampleProps (exampleAuth\<lparr> isSignedIn := False \<rparr>)
      (\<lambda>req. Returns \<lparr> ok = True, json = Returns [] \<rparr>) exampleState = (exampleState, [])
   \<and> handleDecision ''https://api'' exampleProps (exampleAuth\<lparr> isSignedIn := False \<rparr>)
      (\<lambda>req. Returns \<lparr> ok = True, json = Returns approvalB \<rparr>) ''a'' Approved exampleState
      = (exampleState, [])
   \<and> handleDecision ''https://api'' (exampleProps\<lparr> boardId := [], onDecision := Some (Callback 3) \<rparr>)
      exampleAuth (\<lambda>req. Returns \<lparr> ok = True, json = Returns approvalB \<rparr>) ''a'' Approved
      exampleState
      = (exampleState, [Delegate (Callback 3) ''a'' Approved])"
proof -
  let ?f = "\<lambda>req::request. Returns \<lparr> ok = True, json = Returns ([] :: int approval list) \<rparr>"
  let ?f' = "\<lambda>req::request. Returns \<lparr> ok = True, json = Returns approvalB \<rparr>"
  let ?au = "exampleAuth\<lparr> isSignedIn := False \<rparr>"
  let ?p = "exampleProps\<lparr> boardId := [], onDecision := Some (Callback 3) \<rparr>"
  have a: "\<not> isSignedIn ?au \<or> boardId exampleProps = []" by simp
  have b: "\<not> isSignedIn exampleAuth \<or> boardId ?p = []" by simp
  note ta = not_signed_in_noop [OF a, of "''https://api''" ?f exampleState ?f' "''a''" Approved]
  note tb = not_signed_in_noop [OF b, of "''https://api''" ?f exampleState ?f' "''a''" Approved]
  have 1: "loadApprovals ''https://api'' exampleProps ?au ?f exampleState = (exampleState, [])"
    by (rule ta [THEN conjunct1])
  have 2: "handleDecision ''https://api'' exampleProps ?au ?f' ''a'' Approved exampleState
      = (exampleState, [])"
    using ta [THEN conjunct2, THEN conjunct1] by simp
  have 3: "handleDecision ''https://api'' ?p exampleAuth ?f' ''a'' Approved exampleState
      = (exampleState, [Delegate (Callback 3) ''a'' Approved])"
    using tb [THEN conjunct2, THEN conjunct1] by simp
  from 1 2 3 show ?thesis by (intro conjI)
qed

text \<open>
  C8 as stated fails: with a decision handler supplied, the decision submitter of a
  session that is not signed in is not without effect, it calls the handler.
\<close>

theorem not_signed_in_delegates_counterexample:
  "\<not> isSignedIn (exampleAuth\<lparr> isSignedIn := False \<rparr>)
   \<and> snd (handleDecision ''https://api'' (exampleProps\<lparr> onDecision := Some (Callback 7) \<rparr>)
        (exampleAuth\<lparr> isSignedIn := False \<rparr>)
        (\<lambda>req. Returns \<lparr> ok = True, json = Returns approvalB \<rparr>) ''a'' Rejected exampleState)
     = [Delegate (Callback 7) ''a'' Rejected]
   \<and> snd (handleDecision ''https://api'' (exampleProps\<lparr> onDecision := Some (Callback 7) \<rparr>)
        (exampleAuth\<lparr> isSignedIn := False \<rparr>)
        (\<lambda>req. Returns \<lparr> ok = True, json = Returns approvalB \<rparr>) ''a'' Rejected exampleState)
     \<noteq> []"
  by (simp add: handleDecision_def)

text \<open>
  C9. When an external decision handler is supplied, the decision submitter calls it
  with the approval id and the status and does nothing else: no network request, and
  the approvals, the error and the updating marker stay as they were.
\<close>

theorem external_handler_delegates:
  assumes "onDecision p = Some handler"
  shows "handleDecision apiBase p au fetch aid d st = (st, [Delegate handler aid d])
    \<and> requests (snd (handleDecision apiBase p au fetch aid d st)) = []
    \<and> internalApprovals (fst (handleDecision apiBase p au fetch aid d st)) = internalApprovals st
    \<and> error (fst (handleDecision apiBase p au fetch aid d st)) = error st
    \<and> updatingId (fst (handleDecision apiBase p au fetch aid d st)) = updatingId st"
  using assms by (simp add: handleDecision_def)

theorem external_handler_delegates_witness:
  "handleDecision ''https://api'' (exampleProps\<lparr> onDecision := Some (Callback 7) \<rparr>) exampleAuth
      (\<lambda>req. Returns \<lparr> ok = True, json = Returns approvalB \<rparr>) ''a'' Rejected exampleState
     = (exampleState, [Delegate (Callback 7) ''a'' Rejected])"
proof -
  have "onDecision (exampleProps\<lparr> onDecision := Some (Callback 7) \<rparr>) = Some (Callback 7)"
    by simp
  from external_handler_delegates [OF this] show ?thesis by blast
qed

text \<open>
  C10. \<^verbatim>\<open>payloadValue\<close> gives \<^verbatim>\<open>null\<close> when the payload is absent, when the key is
  missing, and when the value under the key is neither a string nor a number; it gives
  a string itself and the string rendering of a number. So a value that is not a scalar
  counts for nothing in the summary: with such a value under a key the summary is the
  one of the payload without that key.
\<close>

theorem payloadValue_scalars_only:
  "payloadValue numStr None k = None
   \<and> (obj k = None \<longrightarrow> payloadValue numStr (Some obj) k = None)
   \<and> (\<forall>s. obj k = Some (JStr s) \<longrightarrow> payloadValue numStr (Some obj) k = Some s)
   \<and> (\<forall>n. obj k = Some (JNum n) \<longrightarrow> payloadValue numStr (Some obj) k = Some (numStr n))
   \<and> (\<forall>v. obj k = Some v \<longrightarrow> (\<forall>s. v \<noteq> JStr s) \<longrightarrow> (\<forall>n. v \<noteq> JNum n)
          \<longrightarrow> payloadValue numStr (Some obj) k = None)
   \<and> (\<forall>v. (\<forall>s. v \<noteq> JStr s) \<longrightarrow> (\<forall>n. v \<noteq> JNum n)
          \<longrightarrow> approvalSummary numStr (a\<lparr> payload := Some (obj(k \<mapsto> v)) \<rparr>)
              = approvalSummary numStr (a\<lparr> payload := Some (obj(k := None)) \<rparr>))"
proof (intro conjI allI impI)
  show "payloadValue numStr None k = None" by (simp add: payloadValue_def)
next
  assume "obj k = None"
  then show "payloadValue numStr (Some obj) k = None" by (simp add: payloadValue_def)
next
  fix s assume "obj k = Some (JStr s)"
  then show "payloadValue numStr (Some obj) k = Some s" by (simp add: payloadValue_def)
next
  fix n assume "obj k = Some (JNum n)"
  then show "payloadValue numStr (Some obj) k = Some (numStr n)" by (simp add: payloadValue_def)
next
  fix v assume "obj k = Some v" "\<forall>s. v \<noteq> JStr s" "\<forall>n. v \<noteq> JNum n"
  then show "payloadValue numStr (Some obj) k = None"
    by (cases v) (simp_all add: payloadValue_def)
next
  fix v :: "'a json" assume v: "\<forall>s. v \<noteq> JStr s" "\<forall>n. v \<noteq> JNum n"
  show "approvalSummary numStr (a\<lparr> payload := Some (obj(k \<mapsto> v)) \<rparr>)
      = approvalSummary numStr (a\<lparr> payload := Some (obj(k := None)) \<rparr>)"
    by (rule approvalSummary_cong) (simp_all add: payloadValue_nonscalar [OF v])
qed

theorem payloadValue_scalars_only_witness:
  "payloadValue exampleNumStr (Some [''task_id'' \<mapsto> JNum 42, ''title'' \<mapsto> JBool True]) ''task_id''
     = Some ''42''
   \<and> payloadValue exampleNumStr (Some [''task_id'' \<mapsto> JNum 42, ''title'' \<mapsto> JBool True]) ''title''
     = None
   \<and> approvalSummary exampleNumStr
        (approvalA\<lparr> payload := Some ([''task_id'' \<mapsto> JNum 42](''title'' \<mapsto> JBool True)) \<rparr>)
     = approvalSummary exampleNumStr
        (approvalA\<lparr> payload := Some ([''task_id'' \<mapsto> JNum 42](''title'' := None)) \<rparr>)"
proof -
  let ?obj = "[''task_id'' \<mapsto> JNum (42::int), ''title'' \<mapsto> JBool True]"
  have 1: "payloadValue exampleNumStr (Some ?obj) ''task_id'' = Some (exampleNumStr 42)"
    by (rule payloadValue_scalars_only [where numStr = exampleNumStr and obj = ?obj
          and k = "''task_id''" and a = approvalA,
          THEN conjunct2, THEN conjunct2, THEN conjunct2, THEN conjunct1, rule_format])
       simp
  have 2: "payloadValue exampleNumStr (Some ?obj) ''title'' = None"
    by (rule payloadValue_scalars_only [where numStr = exampleNumStr and obj = ?obj
          and k = "''title''" and a = approvalA,
          THEN conjunct2, THEN conjunct2, THEN conjunct2, THEN conjunct2, THEN conjunct1,
          rule_format, where v = "JBool True"])
       simp_all
  have 3: "approvalSummary exampleNumStr
        (approvalA\<lparr> payload := Some ([''task_id'' \<mapsto> JNum 42](''title'' \<mapsto> JBool True)) \<rparr>)
     = approvalSummary exampleNumStr
        (approvalA\<lparr> payload := Some ([''task_id'' \<mapsto> JNum 42](''title'' := None)) \<rparr>)"
    by (rule payloadValue_scalars_only [where numStr = exampleNumStr
          and obj = "[''task_id'' \<mapsto> JNum (42::int)]"
          and k = "''title''" and a = approvalA,
          THEN conjunct2, THEN conjunct2, THEN conjunct2, THEN conjunct2, THEN conjunct2,
          rule_format, where v = "JBool True"])
       simp_all
  from 1 2 3 show ?thesis by simp
qed

end
